theory Spec2Isabelle
  imports Main "HOL-Library.Word"
begin

section \<open>Data model (message.go, mail\_recorder.go, transmitter)\<close>

text \<open>
  A Go \<^verbatim>\<open>[]byte\<close> is a list of 8-bit words, a Go \<^verbatim>\<open>string\<close> is a list of
  characters (bytes).  A nil slice and an empty slice are both the empty list: the code
  only ever takes their length, ranges over them or hands them to \<^verbatim>\<open>bytes.Equal\<close>,
  none of which tells the two apart.
\<close>

type_synonym bytes = "8 word list"

text \<open>
  A Go \<^verbatim>\<open>error\<close> value.  \<open>Error msg\<close> is what \<^verbatim>\<open>errors.New\<close> and
  \<^verbatim>\<open>fmt.Errorf\<close> build (the message is all they carry); \<open>Errors fs\<close> is the
  per-field error map of the validation library, as a list of (field, message) pairs in
  the order of the \<^verbatim>\<open>oz.Field\<close> arguments.  The absence of an error (Go's nil)
  is \<open>None\<close> of \<open>error option\<close>.
\<close>

datatype error = Error string | Errors "(string \<times> string) list"

record Attachment =
  Name :: string
  Kind :: string
  Content :: bytes

record Message =
  Topic :: string
  Body :: string
  Attachments :: "Attachment list"
  ContentType :: string

record RequestAttachment =
  Name_req :: string
  Content_req :: bytes

type_synonym RequestAttachments = "RequestAttachment list"

type_synonym To = "string list"

record Mail =
  From :: string
  To :: To
  Message :: Message

record TxConfig =
  User :: string
  Password :: string
  Host :: string
  Port :: int
  TmpDir :: string

text \<open>
  \<^verbatim>\<open>MemRecorder\<close>: the log and the \<^verbatim>\<open>atomic.Value\<close> slot of the configuration
  (\<open>None\<close> while nothing has been stored).
\<close>

record MemRecorder =
  Mails :: "Mail list"
  cfg_rec :: "TxConfig option"

record sendOptions =
  asCc :: bool

text \<open>
  \<^verbatim>\<open>SendOption\<close> is an interface with one method \<^verbatim>\<open>apply(*sendOptions)\<close>.  The only
  implementation is \<^verbatim>\<open>sendOptionFunc\<close>; a nil interface value is a legal argument too,
  and calling \<^verbatim>\<open>apply\<close> on it panics.
\<close>

datatype SendOption = NilOption | OptionFunc "sendOptions \<Rightarrow> sendOptions"

definition AsCc :: SendOption where
  "AsCc = OptionFunc (\<lambda>so. so\<lparr>asCc := True\<rparr>)"

section \<open>Memory recorder (mail\_recorder.go)\<close>

text \<open>
  The loop \<^verbatim>\<open>for i, to := range r.To { if to != m.To[i] { return false, nil } }\<close>.
  The result \<open>False\<close> is the early return, \<open>True\<close> is falling out of the loop.  The
  index \<open>i\<close> is in range of \<open>mTo\<close> because the caller has compared the lengths.
\<close>

fun toLoop :: "string list \<Rightarrow> string list \<Rightarrow> nat \<Rightarrow> bool" where
  "toLoop [] mTo i = True"
| "toLoop (to # rest) mTo i = (if to \<noteq> mTo ! i then False else toLoop rest mTo (Suc i))"

text \<open>
  The loop over \<^verbatim>\<open>r.Message.Attachments\<close>; \<^verbatim>\<open>bytes.Equal\<close> is equality of the
  byte sequences.
\<close>

fun attachmentLoop :: "Attachment list \<Rightarrow> Attachment list \<Rightarrow> nat \<Rightarrow> bool" where
  "attachmentLoop [] mAs i = True"
| "attachmentLoop (a # rest) mAs i =
     (let a2 = mAs ! i in
      if Content a \<noteq> Content a2 \<or> Kind a \<noteq> Kind a2 \<or> Name a \<noteq> Name a2 then False
      else attachmentLoop rest mAs (Suc i))"

text \<open>The body of the outer loop for one recorded mail \<open>r\<close>: \<open>False\<close> is a return of false.\<close>

definition mailMatches :: "Mail \<Rightarrow> Mail \<Rightarrow> bool" where
  "mailMatches r m =
     (if From r \<noteq> From m then False
      else if length (To r) \<noteq> length (To m) then False
      else if \<not> toLoop (To r) (To m) 0 then False
      else if Body (Message r) \<noteq> Body (Message m) \<or>
              ContentType (Message r) \<noteq> ContentType (Message m) \<or>
              Topic (Message r) \<noteq> Topic (Message m) then False
      else if length (Attachments (Message r)) \<noteq> length (Attachments (Message m)) then False
      else attachmentLoop (Attachments (Message r)) (Attachments (Message m)) 0)"

fun mailsLoop :: "Mail list \<Rightarrow> Mail \<Rightarrow> bool" where
  "mailsLoop [] m = True"
| "mailsLoop (r # rest) m = (if \<not> mailMatches r m then False else mailsLoop rest m)"

definition Seen :: "MemRecorder \<Rightarrow> Mail \<Rightarrow> bool \<times> error option" where
  "Seen r m = (if length (Mails r) = 0 then (False, None) else (mailsLoop (Mails r) m, None))"

text \<open>
  \<^verbatim>\<open>MemRecorder.Send\<close>: the recorder is updated in place (returned here), the result is
  always nil.  The options are never looked at.
\<close>

definition Send_rec ::
  "MemRecorder \<Rightarrow> string \<Rightarrow> To \<Rightarrow> Message \<Rightarrow> SendOption list \<Rightarrow> MemRecorder \<times> error option" where
  "Send_rec r from to message options =
     (r\<lparr>Mails := Mails r @ [\<lparr>From = from, To = to, Message = message\<rparr>]\<rparr>, None)"

text \<open>
  The structural equality of the specification, field by field: From equal; To of equal
  length and equal element-wise in order; Topic, Body and ContentType equal; Attachments
  of equal length with equal Name, Kind and byte content, in order.
\<close>

definition attachment_equal :: "Attachment \<Rightarrow> Attachment \<Rightarrow> bool" where
  "attachment_equal a b = (Name a = Name b \<and> Kind a = Kind b \<and> Content a = Content b)"

definition structurally_equal :: "Mail \<Rightarrow> Mail \<Rightarrow> bool" where
  "structurally_equal r m =
     (From r = From m \<and>
      length (To r) = length (To m) \<and>
      (\<forall>i < length (To r). To r ! i = To m ! i) \<and>
      Topic (Message r) = Topic (Message m) \<and>
      Body (Message r) = Body (Message m) \<and>
      ContentType (Message r) = ContentType (Message m) \<and>
      length (Attachments (Message r)) = length (Attachments (Message m)) \<and>
      (\<forall>i < length (Attachments (Message r)).
         attachment_equal (Attachments (Message r) ! i) (Attachments (Message m) ! i)))"

section \<open>Attachment processor (message.go)\<close>

text \<open>
  \<^verbatim>\<open>processAttachments\<close>.  The allow-list is a Go \<^verbatim>\<open>map[string]struct{}\<close>, here a
  map into \<open>unit\<close>; a nil map reads like the empty one.  The content sniffer
  \<^verbatim>\<open>http.DetectContentType\<close> belongs to the standard library and is the parameter
  \<open>detect\<close>.  The accumulator \<open>aa\<close> is the named result, which the early return
  hands back as it stands.
\<close>

fun processLoop ::
  "(bytes \<Rightarrow> string) \<Rightarrow> (string \<rightharpoonup> unit) \<Rightarrow> RequestAttachments \<Rightarrow> Attachment list
     \<Rightarrow> Attachment list \<times> error option" where
  "processLoop detect allowed [] aa = (aa, None)"
| "processLoop detect allowed (attachment # rest) aa =
     (let mimeType = detect (Content_req attachment) in
      if allowed mimeType = None
      then (aa, Some (Error (''MIME Type '' @ mimeType @ '' is not allowed'')))
      else processLoop detect allowed rest
             (aa @ [\<lparr>Name = Name_req attachment, Kind = mimeType,
                     Content = Content_req attachment\<rparr>]))"

definition processAttachments ::
  "(bytes \<Rightarrow> string) \<Rightarrow> (string \<rightharpoonup> unit) \<Rightarrow> RequestAttachments
     \<Rightarrow> Attachment list \<times> error option" where
  "processAttachments detect allowed attachments = processLoop detect allowed attachments []"

text \<open>The attachment built from a request attachment: Kind is the sniffed type.\<close>

definition stamp :: "(bytes \<Rightarrow> string) \<Rightarrow> RequestAttachment \<Rightarrow> Attachment" where
  "stamp detect a =
     \<lparr>Name = Name_req a, Kind = detect (Content_req a), Content = Content_req a\<rparr>"

text \<open>The sniffed type of an attachment is a member of the allow-list.\<close>

definition allowedType :: "(bytes \<Rightarrow> string) \<Rightarrow> (string \<rightharpoonup> unit) \<Rightarrow> RequestAttachment \<Rightarrow> bool" where
  "allowedType detect allowed a = (detect (Content_req a) \<in> dom allowed)"

fun makeAllowedAttachmentTypesIdx_loop :: "(string \<rightharpoonup> unit) \<Rightarrow> string list \<Rightarrow> (string \<rightharpoonup> unit)" where
  "makeAllowedAttachmentTypesIdx_loop idx [] = idx"
| "makeAllowedAttachmentTypesIdx_loop idx (t # ts) = makeAllowedAttachmentTypesIdx_loop (idx(t \<mapsto> ())) ts"

definition makeAllowedAttachmentTypesIdx :: "string list \<Rightarrow> (string \<rightharpoonup> unit)" where
  "makeAllowedAttachmentTypesIdx types = makeAllowedAttachmentTypesIdx_loop Map.empty types"

section \<open>Decimal formatting\<close>

text \<open>
  What \<^verbatim>\<open>%d\<close>, \<^verbatim>\<open>%02d\<close> and \<^verbatim>\<open>%v\<close> of an integer produce.
\<close>

definition digit :: "nat \<Rightarrow> char" where
  "digit n = ''0123456789'' ! (n mod 10)"

function showNat :: "nat \<Rightarrow> string" where
  "showNat n = (if n < 10 then [digit n] else showNat (n div 10) @ [digit n])"
  by pat_completeness auto
termination
  by (relation "measure id") auto

declare showNat.simps [simp del]

definition showInt :: "int \<Rightarrow> string" where
  "showInt i = (if i < 0 then CHR ''-'' # showNat (nat (- i)) else showNat (nat i))"

text \<open>\<^verbatim>\<open>%02d\<close> of a value that is never negative (day, hour, minute, second).\<close>

definition pad2 :: "nat \<Rightarrow> string" where
  "pad2 n = (if n < 10 then CHR ''0'' # showNat n else showNat n)"

section \<open>Transmitter configuration (validation and the two stores)\<close>

text \<open>
  The rules of the validation library (go-ozzo/ozzo-validation v4, required by go.mod)
  that \<^verbatim>\<open>TxConfig.Validate\<close> combines.  A rule maps a value to the message of its
  error, or to \<open>None\<close>.
  \<^item> \<^verbatim>\<open>Required\<close> rejects the empty value of the field's type: the empty string, and
    the integer zero.
  \<^item> \<^verbatim>\<open>Min(t)\<close> and \<^verbatim>\<open>Max(t)\<close> skip the empty value (zero) and otherwise compare
    with the threshold.
\<close>

definition Required_string :: "string \<Rightarrow> string option" where
  "Required_string v = (if length v = 0 then Some ''cannot be blank'' else None)"

definition Required_int :: "int \<Rightarrow> string option" where
  "Required_int v = (if v = 0 then Some ''cannot be blank'' else None)"

definition Min :: "int \<Rightarrow> int \<Rightarrow> string option" where
  "Min threshold v =
     (if v = 0 then None
      else if threshold \<le> v then None
      else Some (''must be no less than '' @ showInt threshold))"

definition Max :: "int \<Rightarrow> int \<Rightarrow> string option" where
  "Max threshold v =
     (if v = 0 then None
      else if v \<le> threshold then None
      else Some (''must be no greater than '' @ showInt threshold))"

text \<open>The rules of one field run in order; the first error is the field's error.\<close>

fun Validate_rules :: "('a \<Rightarrow> string option) list \<Rightarrow> 'a \<Rightarrow> string option" where
  "Validate_rules [] v = None"
| "Validate_rules (rule # rules) v =
     (case rule v of Some msg \<Rightarrow> Some msg | None \<Rightarrow> Validate_rules rules v)"

text \<open>
  \<^verbatim>\<open>oz.Field(&field, rules...)\<close>: the entry of the field in the error map (under
  its json name), if its rules fail.
\<close>

definition Field :: "string \<Rightarrow> 'a \<Rightarrow> ('a \<Rightarrow> string option) list \<Rightarrow> (string \<times> string) list" where
  "Field name v rules = (case Validate_rules rules v of Some msg \<Rightarrow> [(name, msg)] | None \<Rightarrow> [])"

text \<open>\<^verbatim>\<open>oz.ValidateStruct\<close>: nil when no field has an error, else the error map.\<close>

definition ValidateStruct :: "(string \<times> string) list list \<Rightarrow> error option" where
  "ValidateStruct fieldErrors = (let errs = concat fieldErrors in if errs = [] then None else Some (Errors errs))"

definition Validate :: "TxConfig \<Rightarrow> error option" where
  "Validate cfg =
     ValidateStruct
       [Field ''user'' (User cfg) [Required_string],
        Field ''password'' (Password cfg) [Required_string],
        Field ''host'' (Host cfg) [Required_string],
        Field ''port'' (Port cfg) [Required_int, Min 0, Max 49151]]"

text \<open>
  \<^verbatim>\<open>mail.NewDialer(host, port, username, password)\<close> of the SMTP library builds a
  dialer value from its four arguments (SSL is on for port 465); it opens no connection.
\<close>

record Dialer =
  Host_d :: string
  Port_d :: int
  Username_d :: string
  Password_d :: string
  SSL_d :: bool

definition NewDialer :: "string \<Rightarrow> int \<Rightarrow> string \<Rightarrow> string \<Rightarrow> Dialer" where
  "NewDialer host port username password =
     \<lparr>Host_d = host, Port_d = port, Username_d = username, Password_d = password,
      SSL_d = (port = 465)\<rparr>"

text \<open>
  \<^verbatim>\<open>Tx\<close>: two \<^verbatim>\<open>atomic.Value\<close> slots, each \<open>None\<close> until the first store.
\<close>

record Tx =
  dialer :: "Dialer option"
  cfg :: "TxConfig option"

definition New :: Tx where
  "New = \<lparr>dialer = None, cfg = None\<rparr>"

text \<open>The two stores of \<^verbatim>\<open>UpdateTxConfig\<close> (and of \<^verbatim>\<open>Dial\<close>), in program order.\<close>

definition storeCfg :: "TxConfig \<Rightarrow> Tx \<Rightarrow> Tx" where
  "storeCfg c tx = tx\<lparr>cfg := Some c\<rparr>"

definition storeDialer :: "TxConfig \<Rightarrow> Tx \<Rightarrow> Tx" where
  "storeDialer c tx = tx\<lparr>dialer := Some (NewDialer (Host c) (Port c) (User c) (Password c))\<rparr>"

definition UpdateTxConfig :: "Tx \<Rightarrow> TxConfig \<Rightarrow> Tx" where
  "UpdateTxConfig tx c = storeDialer c (storeCfg c tx)"

section \<open>SMTP transmitter: Send\<close>

text \<open>
  \<^verbatim>\<open>err.Error()\<close>, which \<^verbatim>\<open>%v\<close> prints.  The validation library prints its
  error map sorted by field name, entries joined by \<open>; \<close> and closed by a full stop.
\<close>

fun string_le :: "string \<Rightarrow> string \<Rightarrow> bool" where
  "string_le [] ys = True"
| "string_le (x # xs) [] = False"
| "string_le (x # xs) (y # ys) =
     (if (of_char x :: nat) < of_char y then True
      else if (of_char y :: nat) < of_char x then False
      else string_le xs ys)"

fun insertField :: "string \<times> string \<Rightarrow> (string \<times> string) list \<Rightarrow> (string \<times> string) list" where
  "insertField e [] = [e]"
| "insertField e (f # fs) = (if string_le (fst e) (fst f) then e # f # fs else f # insertField e fs)"

fun joinFields :: "(string \<times> string) list \<Rightarrow> string" where
  "joinFields [] = []"
| "joinFields [(k, m)] = k @ '': '' @ m"
| "joinFields ((k, m) # f # fs) = k @ '': '' @ m @ ''; '' @ joinFields (f # fs)"

fun errorString :: "error \<Rightarrow> string" where
  "errorString (Error msg) = msg"
| "errorString (Errors fs) =
     (if fs = [] then [] else joinFields (foldr insertField fs []) @ ''.'')"

text \<open>
  The message of the SMTP library (\<^verbatim>\<open>mail.NewMessage\<close>): header fields, body parts
  and the paths of the attached files.
\<close>

record GoMessage =
  header :: "(string \<times> string list) list"
  parts :: "(string \<times> string) list"
  attached :: "string list"

definition NewMessage :: GoMessage where
  "NewMessage = \<lparr>header = [], parts = [], attached = []\<rparr>"

fun setField :: "string \<Rightarrow> string list \<Rightarrow> (string \<times> string list) list \<Rightarrow> (string \<times> string list) list" where
  "setField k v [] = [(k, v)]"
| "setField k v (e # es) = (if fst e = k then (k, v) # es else e # setField k v es)"

definition SetHeader :: "GoMessage \<Rightarrow> string \<Rightarrow> string list \<Rightarrow> GoMessage" where
  "SetHeader m field vs = m\<lparr>header := setField field vs (header m)\<rparr>"

definition SetBody :: "GoMessage \<Rightarrow> string \<Rightarrow> string \<Rightarrow> GoMessage" where
  "SetBody m contentType body = m\<lparr>parts := [(contentType, body)]\<rparr>"

definition Attach :: "GoMessage \<Rightarrow> string \<Rightarrow> GoMessage" where
  "Attach m filename = m\<lparr>attached := attached m @ [filename]\<rparr>"

text \<open>
  The calls that leave the process, in the order they are made.  The trace of these
  events is the state that \<^verbatim>\<open>Send\<close> threads through.
\<close>

datatype event =
    TempDir string string
  | WriteFile string bytes
  | RemoveAll string
  | DialAndSend Dialer GoMessage

text \<open>
  The environment answers each call; an answer may depend on everything that happened
  before (the trace so far).  \<^verbatim>\<open>mime.ExtensionsByType\<close> and \<^verbatim>\<open>filepath.Join\<close>
  only compute.  \<^verbatim>\<open>ExtensionsByType\<close> returns nil or a non-empty slice, so the empty
  list stands for nil.
\<close>

record env =
  ExtensionsByType :: "string \<Rightarrow> error + string list"
  Join :: "string \<Rightarrow> string \<Rightarrow> string"
  TempDir_result :: "event list \<Rightarrow> string \<Rightarrow> string \<Rightarrow> error + string"
  WriteFile_result :: "event list \<Rightarrow> string \<Rightarrow> bytes \<Rightarrow> error option"
  RemoveAll_result :: "event list \<Rightarrow> string \<Rightarrow> error option"
  DialAndSend_result :: "event list \<Rightarrow> Dialer \<Rightarrow> GoMessage \<Rightarrow> error option"

text \<open>A call either returns a value or panics.\<close>

datatype 'a result = Returned 'a | Panicked

definition writeFile ::
  "env \<Rightarrow> string \<Rightarrow> Attachment \<Rightarrow> event list \<Rightarrow> (string \<times> error option) \<times> event list" where
  "writeFile env tempDirName a tr =
     (case ExtensionsByType env (Kind a) of
        Inl err \<Rightarrow>
          (([], Some (Error (''Couldn't find extension for mime-type: '' @ errorString err))), tr)
      | Inr ee \<Rightarrow>
          (let ext = (case ee of [] \<Rightarrow> ''unknown'' | e # _ \<Rightarrow> e);
               filename = Join env tempDirName (Name a @ ext);
               tr' = tr @ [WriteFile filename (Content a)]
           in case WriteFile_result env tr filename (Content a) of
                Some err \<Rightarrow>
                  ((filename,
                    Some (Error (''Couldn't write attachment to tmp-dir: '' @ errorString err))), tr')
              | None \<Rightarrow> ((filename, None), tr')))"

text \<open>The loop that applies the send options to \<^verbatim>\<open>opts\<close>.\<close>

fun applySendOptions :: "SendOption list \<Rightarrow> sendOptions \<Rightarrow> sendOptions result" where
  "applySendOptions [] opts = Returned opts"
| "applySendOptions (NilOption # rest) opts = Panicked"
| "applySendOptions (OptionFunc f # rest) opts = applySendOptions rest (f opts)"

text \<open>
  The loop over \<^verbatim>\<open>message.Attachments\<close>: the error that makes it return, if any, the
  message with the files attached so far, and the trace.
\<close>

fun attachLoop ::
  "env \<Rightarrow> string \<Rightarrow> Attachment list \<Rightarrow> GoMessage \<Rightarrow> event list
     \<Rightarrow> (error option \<times> GoMessage) \<times> event list" where
  "attachLoop env tempDirName [] m tr = ((None, m), tr)"
| "attachLoop env tempDirName (a # rest) m tr =
     (case writeFile env tempDirName a tr of
        ((filename, Some err), tr') \<Rightarrow> ((Some err, m), tr')
      | ((filename, None), tr') \<Rightarrow> attachLoop env tempDirName rest (Attach m filename) tr')"

text \<open>
  The statements of \<^verbatim>\<open>Send\<close> after the \<^verbatim>\<open>defer\<close>: the value they leave in the
  result \<open>err\<close> when they return.  \<open>loadedDialer\<close> is what
  \<^verbatim>\<open>tx.dialer.Load()\<close> yields at that point.
\<close>

definition Send_rest ::
  "env \<Rightarrow> Dialer option \<Rightarrow> string \<Rightarrow> Message \<Rightarrow> GoMessage \<Rightarrow> event list
     \<Rightarrow> error option \<times> event list" where
  "Send_rest env loadedDialer tempDirName message m tr =
     (case attachLoop env tempDirName (Attachments message) m tr of
        ((Some err, m'), tr') \<Rightarrow> (Some err, tr')
      | ((None, m'), tr') \<Rightarrow>
          (case loadedDialer of
             None \<Rightarrow> (Some (Error ''transmitter is not configured, yet''), tr')
           | Some d \<Rightarrow> (DialAndSend_result env tr' d m', tr' @ [DialAndSend d m'])))"

text \<open>
  The deferred function \<^verbatim>\<open>func() { err = os.RemoveAll(tempDirName) }\<close>: it runs when
  the function returns and assigns the result \<open>err\<close>, whatever it held.
\<close>

definition deferred :: "env \<Rightarrow> string \<Rightarrow> error option \<times> event list \<Rightarrow> error option \<times> event list" where
  "deferred env tempDirName r =
     (case r of (err, tr) \<Rightarrow> (RemoveAll_result env tr tempDirName, tr @ [RemoveAll tempDirName]))"

text \<open>The message as composed before the temporary directory is created.\<close>

definition compose :: "string \<Rightarrow> To \<Rightarrow> Message \<Rightarrow> sendOptions \<Rightarrow> GoMessage" where
  "compose from to message opts =
     (let m = NewMessage;
          m = SetHeader m ''From'' [from];
          m = SetHeader m ''To'' [to ! 0];
          m = (if length to > 1
               then (if asCc opts then SetHeader m ''Cc'' (drop 1 to)
                     else SetHeader m ''Bcc'' (drop 1 to))
               else m);
          m = SetHeader m ''Subject'' [Topic message]
      in SetBody m (ContentType message) (Body message))"

text \<open>
  \<^verbatim>\<open>Tx.Send\<close>, given what the two loads \<^verbatim>\<open>tx.cfg.Load()\<close> and
  \<^verbatim>\<open>tx.dialer.Load()\<close> yield.
\<close>

definition Send_loaded ::
  "env \<Rightarrow> TxConfig option \<Rightarrow> Dialer option \<Rightarrow> string \<Rightarrow> To \<Rightarrow> Message \<Rightarrow> SendOption list
     \<Rightarrow> event list \<Rightarrow> error option result \<times> event list" where
  "Send_loaded env loadedCfg loadedDialer from to message options tr =
     (if from = [] then (Returned (Some (Error ''from cannot be empty'')), tr)
      else if length to = 0
      then (Returned (Some (Error ''at least one 'to' email-address must be given'')), tr)
      else case applySendOptions options \<lparr>asCc = False\<rparr> of
        Panicked \<Rightarrow> (Panicked, tr)
      | Returned opts \<Rightarrow>
          (case loadedCfg of
             None \<Rightarrow> (Returned (Some (Error ''transmitter is not configured, yet'')), tr)
           | Some c \<Rightarrow>
               (let m = compose from to message opts;
                    tr1 = tr @ [TempDir (TmpDir c) ''f9a-mail'']
                in case TempDir_result env tr (TmpDir c) ''f9a-mail'' of
                     Inl err \<Rightarrow>
                       (Returned (Some (Error (''couldn't create tmp-dir for attachments: ''
                                               @ errorString err))), tr1)
                   | Inr tempDirName \<Rightarrow>
                       (case deferred env tempDirName
                               (Send_rest env loadedDialer tempDirName message m tr1) of
                          (err, tr') \<Rightarrow> (Returned err, tr')))))"

text \<open>\<^verbatim>\<open>Tx.Send\<close> on a transmitter that nobody updates meanwhile.\<close>

definition Send ::
  "env \<Rightarrow> Tx \<Rightarrow> string \<Rightarrow> To \<Rightarrow> Message \<Rightarrow> SendOption list \<Rightarrow> event list
     \<Rightarrow> error option result \<times> event list" where
  "Send env tx from to message options tr =
     Send_loaded env (cfg tx) (dialer tx) from to message options tr"

section \<open>SMTP transmitter: Dial\<close>

text \<open>
  \<^verbatim>\<open>Dial\<close>, threading the trace of the calls that leave the process like \<open>Send\<close>
  does.  \<^verbatim>\<open>Dial\<close> makes none: \<^verbatim>\<open>cfg.Validate()\<close> and \<^verbatim>\<open>mail.NewDialer\<close> only
  compute (the connection is opened by \<^verbatim>\<open>DialAndSend\<close> inside \<^verbatim>\<open>Send\<close>), and the
  two stores write the transmitter.  The result is the pair (tx, err) and the trace.
\<close>

definition Dial :: "TxConfig \<Rightarrow> event list \<Rightarrow> (Tx \<times> error option) \<times> event list" where
  "Dial c tr =
     (let tx = New in
      case Validate c of
        Some err \<Rightarrow> ((tx, Some err), tr)
      | None \<Rightarrow> ((storeDialer c (storeCfg c tx), None), tr))"

section \<open>The template function timef (message.go)\<close>

datatype Weekday = Sunday | Monday | Tuesday | Wednesday | Thursday | Friday | Saturday

datatype Month = January | February | March | April | May | June | July | August
  | September | October | November | December

text \<open>
  A \<^verbatim>\<open>time.Time\<close>, as the civil date and clock time that its accessors
  \<^verbatim>\<open>Year()\<close>, \<^verbatim>\<open>Month()\<close>, \<^verbatim>\<open>Day()\<close>, \<^verbatim>\<open>Hour()\<close>, \<^verbatim>\<open>Minute()\<close> and
  \<^verbatim>\<open>Second()\<close> return.
\<close>

record Time =
  Year :: int
  Month :: Month
  Day :: nat
  Hour :: nat
  Minute :: nat
  Second :: nat

fun monthNumber :: "Month \<Rightarrow> nat" where
  "monthNumber January = 1" | "monthNumber February = 2" | "monthNumber March = 3"
| "monthNumber April = 4" | "monthNumber May = 5" | "monthNumber June = 6"
| "monthNumber July = 7" | "monthNumber August = 8" | "monthNumber September = 9"
| "monthNumber October = 10" | "monthNumber November = 11" | "monthNumber December = 12"

text \<open>
  \<^verbatim>\<open>t.Weekday()\<close>: the day of the week of the date in the proleptic Gregorian
  calendar, computed from year, month and day (the months January and February count
  with the year before).
\<close>

definition monthOffset :: "nat \<Rightarrow> int" where
  "monthOffset m = [0, 3, 2, 5, 0, 3, 5, 1, 4, 6, 2, 4] ! (m - 1)"

definition weekdayNumber :: "Time \<Rightarrow> nat" where
  "weekdayNumber t =
     (let m = monthNumber (Month t);
          y = (if m < 3 then Year t - 1 else Year t)
      in nat ((y + y div 4 - y div 100 + y div 400 + monthOffset m + int (Day t)) mod 7))"

definition Weekday_of :: "Time \<Rightarrow> Weekday" where
  "Weekday_of t =
     [Sunday, Monday, Tuesday, Wednesday, Thursday, Friday, Saturday] ! weekdayNumber t"

fun days :: "Weekday \<Rightarrow> string" where
  "days Monday = ''Montag''"
| "days Tuesday = ''Dienstag''"
| "days Wednesday = ''Mittwoch''"
| "days Thursday = ''Donnerstag''"
| "days Friday = ''Freitag''"
| "days Saturday = ''Samstag''"
| "days Sunday = ''Sonntag''"

text \<open>The name of March holds the bytes the source file has between M and rz.\<close>

fun months :: "Month \<Rightarrow> string" where
  "months January = ''Januar''"
| "months February = ''Februar''"
| "months March = ''M'' @ [CHR 0xC3, CHR 0x83, CHR 0xC2, CHR 0xA4] @ ''rz''"
| "months April = ''April''"
| "months May = ''Mai''"
| "months June = ''Juni''"
| "months July = ''Juli''"
| "months August = ''August''"
| "months September = ''September''"
| "months October = ''Oktober''"
| "months November = ''November''"
| "months December = ''Dezember''"

text \<open>\<^verbatim>\<open>fmt.Sprintf("%s, %02d. %s %d", day[:2], t.Day(), month, t.Year())\<close>\<close>

definition longDateGerman :: "Time \<Rightarrow> string" where
  "longDateGerman t =
     (let day = days (Weekday_of t);
          month = months (Month t)
      in take 2 day @ '', '' @ pad2 (Day t) @ ''. '' @ month @ '' '' @ showInt (Year t))"

definition longTimeGerman :: "Time \<Rightarrow> string" where
  "longTimeGerman t =
     longDateGerman t @ '' '' @ pad2 (Hour t) @ '':'' @ pad2 (Minute t) @ '':'' @ pad2 (Second t)"

text \<open>
  \<^verbatim>\<open>timef\<close>.  \<^verbatim>\<open>t.Format(layout)\<close> belongs to the standard library and is the
  parameter \<open>fmt\<close>.
\<close>

definition timef :: "(Time \<Rightarrow> string \<Rightarrow> string) \<Rightarrow> Time \<Rightarrow> string \<Rightarrow> string" where
  "timef fmt t format =
     (if format = ''date-short-de'' then fmt t ''02.01.2006''
      else if format = ''date-long-de'' then longDateGerman t
      else if format = ''time-short-de'' then fmt t ''02.01.2006 15:04:05''
      else if format = ''time-long-de'' then longTimeGerman t
      else fmt t format)"

text \<open>
  The four-digit year of the layout element \<^verbatim>\<open>2006\<close>: the sign, then the digits padded
  with zeros to four.
\<close>

definition year4 :: "int \<Rightarrow> string" where
  "year4 y =
     (let ds = showNat (nat \<bar>y\<bar>)
      in (if y < 0 then ''-'' else []) @ replicate (4 - length ds) CHR ''0'' @ ds)"

text \<open>
  \<^verbatim>\<open>time.Time.Format\<close> on the layouts that \<^verbatim>\<open>timef\<close> fixes: the layout elements
  \<^verbatim>\<open>2006\<close>, \<^verbatim>\<open>01\<close>, \<^verbatim>\<open>02\<close>, \<^verbatim>\<open>15\<close>, \<^verbatim>\<open>04\<close> and \<^verbatim>\<open>05\<close> are replaced by
  the year, the month, the day, the hour, the minute and the second; every other
  character is copied.  (The layout language of the library has more elements; they do
  not occur in the fixed layouts.)
\<close>

fun Format :: "Time \<Rightarrow> string \<Rightarrow> string" where
  "Format t [] = []"
| "Format t (c # rest) =
     (if take 4 (c # rest) = ''2006'' then year4 (Year t) @ Format t (drop 3 rest)
      else if take 2 (c # rest) = ''01'' then pad2 (monthNumber (Month t)) @ Format t (drop 1 rest)
      else if take 2 (c # rest) = ''02'' then pad2 (Day t) @ Format t (drop 1 rest)
      else if take 2 (c # rest) = ''15'' then pad2 (Hour t) @ Format t (drop 1 rest)
      else if take 2 (c # rest) = ''04'' then pad2 (Minute t) @ Format t (drop 1 rest)
      else if take 2 (c # rest) = ''05'' then pad2 (Second t) @ Format t (drop 1 rest)
      else c # Format t rest)"

section \<open>Message template (message.go)\<close>

text \<open>
  A \<^verbatim>\<open>template.FuncMap\<close> is a Go map, that is a reference: copying a
  \<^verbatim>\<open>Template\<close> struct copies the reference, and both copies see a write through either.
  The store holds the function maps by address; \<open>fresh\<close> is the next unused address.
\<close>

type_synonym addr = nat

type_synonym 'f FuncMap = "string \<rightharpoonup> 'f"

record 'f store =
  maps :: "addr \<Rightarrow> 'f FuncMap"
  fresh :: addr

text \<open>
  \<^verbatim>\<open>Template\<close>.  The parsed templates are values of \<open>'tpl\<close> (\<open>None\<close> is the nil
  pointer); \<open>funcs\<close> is the address of the function map (\<open>None\<close> is the nil map).  The
  allow-list is only ever replaced as a whole, never written through, and the attachment
  slice is only read, so both are values.
\<close>

record 'tpl Template =
  topic :: "'tpl option"
  body :: "'tpl option"
  allowedAttachmentTypes :: "string \<rightharpoonup> unit"
  funcs :: "addr option"
  contentType :: string
  attachments :: RequestAttachments

text \<open>
  The four options of the package.  The argument of \<^verbatim>\<open>TemplateFuncs\<close> is the list of
  the entries of its map.
\<close>

datatype 'f Option =
    WithAttachments RequestAttachments
  | AllowAttachments "string list"
  | ContentType_opt string
  | TemplateFuncs "(string \<times> 'f) list"

text \<open>
  The loop \<^verbatim>\<open>for k, fun := range funcs { opts.funcs[k] = fun }\<close>: each assignment
  writes into the map that \<open>opts.funcs\<close> refers to; assigning to an entry of the nil map
  panics.
\<close>

fun funcsLoop :: "'f store \<Rightarrow> addr option \<Rightarrow> (string \<times> 'f) list \<Rightarrow> 'f store \<times> unit result" where
  "funcsLoop h p [] = (h, Returned ())"
| "funcsLoop h None (e # rest) = (h, Panicked)"
| "funcsLoop h (Some a) (e # rest) =
     funcsLoop (h\<lparr>maps := (maps h)(a := (maps h a)(fst e \<mapsto> snd e))\<rparr>) (Some a) rest"

fun applyOption :: "'f store \<Rightarrow> 'tpl Template \<Rightarrow> 'f Option \<Rightarrow> 'f store \<times> 'tpl Template result" where
  "applyOption h tpl (WithAttachments as) = (h, Returned (tpl\<lparr>attachments := as\<rparr>))"
| "applyOption h tpl (AllowAttachments types) =
     (h, Returned (tpl\<lparr>allowedAttachmentTypes := makeAllowedAttachmentTypesIdx types\<rparr>))"
| "applyOption h tpl (ContentType_opt kind) = (h, Returned (tpl\<lparr>contentType := kind\<rparr>))"
| "applyOption h tpl (TemplateFuncs fs) =
     (case funcsLoop h (funcs tpl) fs of
        (h', Panicked) \<Rightarrow> (h', Panicked)
      | (h', Returned u) \<Rightarrow> (h', Returned tpl))"

fun applyOptions :: "'f store \<Rightarrow> 'tpl Template \<Rightarrow> 'f Option list \<Rightarrow> 'f store \<times> 'tpl Template result" where
  "applyOptions h tpl [] = (h, Returned tpl)"
| "applyOptions h tpl (opt # opts) =
     (case applyOption h tpl opt of
        (h', Panicked) \<Rightarrow> (h', Panicked)
      | (h', Returned tpl') \<Rightarrow> applyOptions h' tpl' opts)"

text \<open>
  \<^verbatim>\<open>executeTemplate\<close>.  Rendering belongs to the template library and is the
  parameter \<open>render\<close>; executing the nil template panics.
\<close>

definition executeTemplate ::
  "('tpl \<Rightarrow> 'd \<Rightarrow> error + string) \<Rightarrow> 'tpl option \<Rightarrow> 'd \<Rightarrow> (string \<times> error option) result" where
  "executeTemplate render tpl data =
     (case tpl of
        None \<Rightarrow> Panicked
      | Some p \<Rightarrow> (case render p data of Inl err \<Rightarrow> Returned ([], Some err)
                                      | Inr s \<Rightarrow> Returned (s, None)))"

definition zeroMessage :: Message where
  "zeroMessage = \<lparr>Topic = [], Body = [], Attachments = [], ContentType = []\<rparr>"

text \<open>
  \<^verbatim>\<open>Template.Execute\<close>.  The receiver is passed by value: \<open>tpl\<close> is the callee's own
  copy of the struct, and the options work on that copy.  The result is the store after
  the call, and the pair (msg, err) that the call returns.
\<close>

definition Execute ::
  "('tpl \<Rightarrow> 'd \<Rightarrow> error + string) \<Rightarrow> (bytes \<Rightarrow> string) \<Rightarrow> 'f store \<Rightarrow> 'tpl Template \<Rightarrow> 'd
     \<Rightarrow> 'f Option list \<Rightarrow> 'f store \<times> (Message \<times> error option) result" where
  "Execute render detect h tpl data opts =
     (case applyOptions h tpl opts of
        (h', Panicked) \<Rightarrow> (h', Panicked)
      | (h', Returned tpl') \<Rightarrow>
          (h',
           case executeTemplate render (topic tpl') data of
             Panicked \<Rightarrow> Panicked
           | Returned (s, Some err) \<Rightarrow> Returned (zeroMessage, Some err)
           | Returned (topicText, None) \<Rightarrow>
               (let msg = zeroMessage\<lparr>Topic := topicText\<rparr> in
                case executeTemplate render (body tpl') data of
                  Panicked \<Rightarrow> Panicked
                | Returned (s, Some err) \<Rightarrow> Returned (msg, Some err)
                | Returned (bodyText, None) \<Rightarrow>
                    (let msg = msg\<lparr>Body := bodyText\<rparr> in
                     case processAttachments detect (allowedAttachmentTypes tpl') (attachments tpl') of
                       (aa, Some err) \<Rightarrow>
                         Returned (msg, Some (Error (''wrong attachment: '' @ errorString err)))
                     | (aa, None) \<Rightarrow>
                         Returned (msg\<lparr>Attachments := aa, ContentType := contentType tpl'\<rparr>, None)))))"

text \<open>
  \<^verbatim>\<open>NewTemplate\<close>.  Parsing belongs to the template library and is the parameter
  \<open>parse\<close> (template name, function map at that moment, source); \<open>timefValue\<close> is the
  function value \<^verbatim>\<open>timef\<close> stored in the map.  The map literal allocates a new map.
\<close>

definition NewTemplate ::
  "(string \<Rightarrow> 'f FuncMap \<Rightarrow> string \<Rightarrow> error + 'tpl) \<Rightarrow> 'f \<Rightarrow> 'f store \<Rightarrow> string \<Rightarrow> string
     \<Rightarrow> 'f Option list \<Rightarrow> 'f store \<times> ('tpl Template \<times> error option) result" where
  "NewTemplate parse timefValue h topicSrc bodySrc options =
     (let a = fresh h;
          h1 = h\<lparr>maps := (maps h)(a := [''timef'' \<mapsto> timefValue]), fresh := Suc a\<rparr>;
          tpl = \<lparr>topic = None, body = None, allowedAttachmentTypes = Map.empty,
                 funcs = Some a, contentType = ''text/plain'', attachments = []\<rparr>
      in case applyOptions h1 tpl options of
           (h2, Panicked) \<Rightarrow> (h2, Panicked)
         | (h2, Returned tpl) \<Rightarrow>
             (h2,
              case parse ''subject'' (maps h2 a) topicSrc of
                Inl err \<Rightarrow> Returned (tpl, Some err)
              | Inr parsedTopic \<Rightarrow>
                  (let tpl = tpl\<lparr>topic := Some parsedTopic\<rparr> in
                   case parse ''body'' (maps h2 a) bodySrc of
                     Inl err \<Rightarrow> Returned (tpl, Some err)
                   | Inr parsedBody \<Rightarrow> Returned (tpl\<lparr>body := Some parsedBody\<rparr>, None))))"

section \<open>A send running while the configuration is updated\<close>

text \<open>
  \<^verbatim>\<open>UpdateTxConfig\<close> makes two atomic stores, first \<^verbatim>\<open>tx.cfg.Store(cfg)\<close> and then
  \<^verbatim>\<open>tx.dialer.Store(mail.NewDialer(...))\<close>; \<^verbatim>\<open>Send\<close> makes two atomic loads, first
  \<^verbatim>\<open>tx.cfg.Load()\<close> and, after the temporary directory and the attachment files have
  been written, \<^verbatim>\<open>tx.dialer.Load()\<close>.  Loads and stores of an \<^verbatim>\<open>atomic.Value\<close> are
  totally ordered, so a run of one \<^verbatim>\<open>Send\<close> beside other goroutines that update the
  transmitter is given by the stores that take effect before its first load
  (\<open>before\<close>) and those that take effect between its two loads (\<open>between\<close>).
\<close>

datatype store_step = StoreCfg TxConfig | StoreDialer TxConfig

fun step :: "store_step \<Rightarrow> Tx \<Rightarrow> Tx" where
  "step (StoreCfg c) tx = storeCfg c tx"
| "step (StoreDialer c) tx = storeDialer c tx"

fun run :: "store_step list \<Rightarrow> Tx \<Rightarrow> Tx" where
  "run [] tx = tx"
| "run (s # ss) tx = run ss (step s tx)"

text \<open>The stores of one call of \<^verbatim>\<open>UpdateTxConfig\<close>, in program order.\<close>

definition UpdateTxConfig_steps :: "TxConfig \<Rightarrow> store_step list" where
  "UpdateTxConfig_steps c = [StoreCfg c, StoreDialer c]"

text \<open>The dialer that \<^verbatim>\<open>UpdateTxConfig\<close> and \<^verbatim>\<open>Dial\<close> derive from a configuration.\<close>

definition dialerOf :: "TxConfig \<Rightarrow> Dialer" where
  "dialerOf c = NewDialer (Host c) (Port c) (User c) (Password c)"

definition Send_concurrent ::
  "env \<Rightarrow> Tx \<Rightarrow> store_step list \<Rightarrow> store_step list \<Rightarrow> string \<Rightarrow> To \<Rightarrow> Message \<Rightarrow> SendOption list
     \<Rightarrow> event list \<Rightarrow> error option result \<times> event list" where
  "Send_concurrent env tx before between from to message options tr =
     Send_loaded env (cfg (run before tx)) (dialer (run between (run before tx)))
       from to message options tr"

text \<open>An option is a \<^verbatim>\<open>TemplateFuncs\<close> option.\<close>

fun isTemplateFuncs :: "'f Option \<Rightarrow> bool" where
  "isTemplateFuncs (TemplateFuncs fs) = True"
| "isTemplateFuncs opt = False"

section \<open>Example values\<close>

text \<open>Concrete inputs at which the theorems below are evaluated.\<close>

definition exampleDetect :: "bytes \<Rightarrow> string" where
  "exampleDetect bs =
     (if take 4 bs = [0x25, 0x50, 0x44, 0x46] then ''application/pdf''
      else ''text/plain; charset=utf-8'')"

definition pdfAttachment :: RequestAttachment where
  "pdfAttachment = \<lparr>Name_req = ''invoice'', Content_req = [0x25, 0x50, 0x44, 0x46, 0x2D]\<rparr>"

definition textAttachment :: RequestAttachment where
  "textAttachment = \<lparr>Name_req = ''note'', Content_req = [0x68, 0x69]\<rparr>"

definition onlyPdf :: "string \<rightharpoonup> unit" where
  "onlyPdf = makeAllowedAttachmentTypesIdx [''application/pdf'']"

text \<open>The configuration of the package's test.\<close>

definition testConfig :: TxConfig where
  "testConfig =
     \<lparr>User = ''test@example.de'', Password = ''xxx'', Host = ''smtp.example.de'',
      Port = 38145, TmpDir = ''/tmp''\<rparr>"

definition exampleMessage :: Message where
  "exampleMessage =
     \<lparr>Topic = ''The Frenchman says hello!'', Body = ''Quelle fantastique bugette'',
      Attachments = [\<lparr>Name = ''invoice'', Kind = ''application/pdf'',
                      Content = [0x25, 0x50, 0x44, 0x46, 0x2D]\<rparr>],
      ContentType = ''text/plain''\<rparr>"

definition exampleMail :: Mail where
  "exampleMail = \<lparr>From = ''test@example.de'', To = [''ava@example.de''], Message = exampleMessage\<rparr>"

text \<open>
  What the write of one attachment looks like in the trace: the file name is the
  attachment's Name followed by the first extension of its Kind (or \<open>unknown\<close>),
  joined to the temporary directory.
\<close>

definition extensionOf :: "env \<Rightarrow> Attachment \<Rightarrow> string" where
  "extensionOf env a =
     (case ExtensionsByType env (Kind a) of Inr (e # es) \<Rightarrow> e | _ \<Rightarrow> ''unknown'')"

definition writeEvent :: "env \<Rightarrow> string \<Rightarrow> Attachment \<Rightarrow> event" where
  "writeEvent env tempDirName a =
     WriteFile (Join env tempDirName (Name a @ extensionOf env a)) (Content a)"

text \<open>
  An environment in which every call succeeds except as the two arguments say: the
  result of dialling and sending, and the result of removing the directory.
\<close>

definition exampleEnv :: "error option \<Rightarrow> error option \<Rightarrow> env" where
  "exampleEnv dialError removeError =
     \<lparr>ExtensionsByType = (\<lambda>kind. Inr (if kind = ''application/pdf'' then [''.pdf''] else [])),
      Join = (\<lambda>dir file. dir @ ''/'' @ file),
      TempDir_result = (\<lambda>tr dir pattern. Inr (dir @ ''/'' @ pattern @ ''123'')),
      WriteFile_result = (\<lambda>tr file content. None),
      RemoveAll_result = (\<lambda>tr dir. removeError),
      DialAndSend_result = (\<lambda>tr d m. dialError)\<rparr>"

text \<open>A transmitter configured as in the package's test.\<close>

definition exampleTx :: Tx where
  "exampleTx = UpdateTxConfig New testConfig"

definition exampleTime :: Time where
  "exampleTime = \<lparr>Year = 2021, Month = May, Day = 3, Hour = 7, Minute = 5, Second = 9\<rparr>"

text \<open>A second configuration, to which the transmitter is updated.\<close>

definition otherConfig :: TxConfig where
  "otherConfig =
     \<lparr>User = ''other@example.org'', Password = ''yyy'', Host = ''smtp.example.org'',
      Port = 587, TmpDir = ''/var/tmp''\<rparr>"

text \<open>
  A template library whose parsed template is the source text and whose rendering
  returns it; function values are numbers.  \<open>exampleStore\<close> and \<open>exampleTemplate\<close> are
  what \<open>NewTemplate\<close> builds from the empty store for the sources \<open>hello\<close> and
  \<open>world\<close>.
\<close>

definition emptyStore :: "nat store" where
  "emptyStore = \<lparr>maps = (\<lambda>a. Map.empty), fresh = 0\<rparr>"

definition exampleParse :: "string \<Rightarrow> nat FuncMap \<Rightarrow> string \<Rightarrow> error + string" where
  "exampleParse name fm src = Inr src"

definition exampleRender :: "string \<Rightarrow> unit \<Rightarrow> error + string" where
  "exampleRender p data = Inr p"

definition exampleStore :: "nat store" where
  "exampleStore = \<lparr>maps = (\<lambda>a. Map.empty)(0 := [''timef'' \<mapsto> 0]), fresh = 1\<rparr>"

definition exampleTemplate :: "string Template" where
  "exampleTemplate =
     \<lparr>topic = Some ''hello'', body = Some ''world'', allowedAttachmentTypes = Map.empty,
      funcs = Some 0, contentType = ''text/plain'', attachments = []\<rparr>"

section \<open>Properties of the memory recorder\<close>

lemma toLoop_iff:
  "toLoop ts mTo i = (\<forall>j < length ts. ts ! j = mTo ! (i + j))"
proof (induction ts arbitrary: i)
  case Nil
  show ?case by simp
next
  case (Cons t ts)
  show ?case
    by (auto simp: Cons.IH less_Suc_eq_0_disj)
qed

lemma attachmentLoop_iff:
  "attachmentLoop as mAs i = (\<forall>j < length as. attachment_equal (as ! j) (mAs ! (i + j)))"
proof (induction as arbitrary: i)
  case Nil
  show ?case by simp
next
  case (Cons a as)
  show ?case
    by (auto simp: Cons.IH less_Suc_eq_0_disj attachment_equal_def Let_def)
qed

lemma mailMatches_iff: "mailMatches r m = structurally_equal r m"
  unfolding mailMatches_def structurally_equal_def
  by (auto simp: toLoop_iff attachmentLoop_iff)

lemma mailsLoop_iff: "mailsLoop rs m = (\<forall>r \<in> set rs. structurally_equal r m)"
  by (induction rs) (auto simp: mailMatches_iff)

lemma attachment_equal_iff: "attachment_equal a b = (a = b)"
  by (cases a, cases b) (auto simp: attachment_equal_def)

text \<open>The field-wise equality of the specification is equality of the two mails.\<close>

lemma structurally_equal_iff: "structurally_equal r m = (r = m)"
proof -
  have msg: "Message r = Message m \<longleftrightarrow>
     Topic (Message r) = Topic (Message m) \<and> Body (Message r) = Body (Message m) \<and>
     ContentType (Message r) = ContentType (Message m) \<and>
     Attachments (Message r) = Attachments (Message m)"
    by (cases "Message r", cases "Message m") auto
  have "r = m \<longleftrightarrow> From r = From m \<and> To r = To m \<and> Message r = Message m"
    by (cases r, cases m) auto
  then show ?thesis
    unfolding structurally_equal_def msg attachment_equal_iff
    by (auto simp: list_eq_iff_nth_eq)
qed

text \<open>
  C6.  For every recorder and every candidate mail, \<open>Seen\<close> returns true (with a nil
  error) exactly when the log is non-empty and every recorded mail is structurally equal
  to the candidate; so it returns false when the log is empty or some entry differs.
\<close>

theorem Seen_iff_every_recorded_mail_equal:
  "Seen r m = (Mails r \<noteq> [] \<and> (\<forall>x \<in> set (Mails r). structurally_equal x m), None)"
  by (simp add: Seen_def mailsLoop_iff)

theorem Seen_iff_every_recorded_mail_equal_witness:
  "Mails \<lparr>Mails = [exampleMail], cfg_rec = None\<rparr> \<noteq> []
   \<and> Seen \<lparr>Mails = [exampleMail], cfg_rec = None\<rparr> exampleMail = (True, None)
   \<and> Seen \<lparr>Mails = [exampleMail, exampleMail\<lparr>To := [''bob@example.de'']\<rparr>], cfg_rec = None\<rparr>
        exampleMail = (False, None)
   \<and> Seen \<lparr>Mails = [], cfg_rec = None\<rparr> exampleMail = (False, None)"
  using Seen_iff_every_recorded_mail_equal [of "\<lparr>Mails = [exampleMail], cfg_rec = None\<rparr>" exampleMail]
    Seen_iff_every_recorded_mail_equal
      [of "\<lparr>Mails = [exampleMail, exampleMail\<lparr>To := [''bob@example.de'']\<rparr>], cfg_rec = None\<rparr>"
          exampleMail]
    Seen_iff_every_recorded_mail_equal [of "\<lparr>Mails = [], cfg_rec = None\<rparr>" exampleMail]
  by (simp add: structurally_equal_iff exampleMail_def)

text \<open>
  C7.  \<open>MemRecorder.Send\<close> returns nil and appends exactly one mail built from its
  arguments, leaving the rest of the recorder as it was; and when the log was empty,
  \<open>Seen\<close> on the mail with the same From, To and Message then returns true.
\<close>

theorem Send_rec_then_Seen:
  "Send_rec r from to message options =
     (r\<lparr>Mails := Mails r @ [\<lparr>From = from, To = to, Message = message\<rparr>]\<rparr>, None)
   \<and> (Mails r = [] \<longrightarrow>
        Seen (fst (Send_rec r from to message options))
             \<lparr>From = from, To = to, Message = message\<rparr> = (True, None))"
  by (simp add: Send_rec_def Seen_def mailMatches_iff structurally_equal_iff)

theorem Send_rec_then_Seen_witness:
  "Mails \<lparr>Mails = [], cfg_rec = None\<rparr> = []
   \<and> Send_rec \<lparr>Mails = [], cfg_rec = None\<rparr> ''test@example.de'' [''ava@example.de''] exampleMessage [AsCc] =
       (\<lparr>Mails = [exampleMail], cfg_rec = None\<rparr>, None)
   \<and> Seen (fst (Send_rec \<lparr>Mails = [], cfg_rec = None\<rparr> ''test@example.de'' [''ava@example.de'']
                  exampleMessage [AsCc])) exampleMail = (True, None)"
  using Send_rec_then_Seen [of "\<lparr>Mails = [], cfg_rec = None\<rparr>" "''test@example.de''"
          "[''ava@example.de'']" exampleMessage "[AsCc]"]
  by (simp add: exampleMail_def Send_rec_def)

section \<open>Properties of the attachment processor\<close>

lemma processLoop_all_allowed:
  "\<forall>a \<in> set as. allowedType detect allowed a \<Longrightarrow>
   processLoop detect allowed as aa = (aa @ map (stamp detect) as, None)"
  by (induction as arbitrary: aa) (auto simp: allowedType_def stamp_def Let_def)

lemma processLoop_first_violation:
  "\<forall>x \<in> set pre. allowedType detect allowed x \<Longrightarrow> \<not> allowedType detect allowed a \<Longrightarrow>
   processLoop detect allowed (pre @ a # post) aa =
     (aa @ map (stamp detect) pre,
      Some (Error (''MIME Type '' @ detect (Content_req a) @ '' is not allowed'')))"
  by (induction pre arbitrary: aa) (auto simp: allowedType_def stamp_def Let_def)

lemma processLoop_succeeds_iff:
  "snd (processLoop detect allowed as aa) = None \<longleftrightarrow> (\<forall>a \<in> set as. allowedType detect allowed a)"
  by (induction as arbitrary: aa) (auto simp: allowedType_def Let_def)

lemma onlyPdf_simps: "onlyPdf k = (if k = ''application/pdf'' then Some () else None)"
  by (simp add: onlyPdf_def makeAllowedAttachmentTypesIdx_def)

text \<open>
  C1.  For every allow-list \<open>A\<close> and every sequence \<open>S\<close> of request attachments,
  \<open>processAttachments\<close> succeeds exactly when the sniffed type of every attachment is in
  \<open>A\<close>; on success it returns the attachments in input order, each with its sniffed type
  as Kind; and when \<open>a\<close> is the first attachment whose sniffed type is not in \<open>A\<close>, the
  error names the type of \<open>a\<close> and the result does not depend on what follows \<open>a\<close>
  (only the attachments before \<open>a\<close> have been processed).
\<close>

theorem processAttachments_first_violation_wins:
  "(snd (processAttachments detect A S) = None \<longleftrightarrow> (\<forall>a \<in> set S. allowedType detect A a))
   \<and> (snd (processAttachments detect A S) = None \<longrightarrow>
        fst (processAttachments detect A S) = map (stamp detect) S)
   \<and> (\<forall>pre a post.
        S = pre @ a # post \<and> (\<forall>x \<in> set pre. allowedType detect A x) \<and> \<not> allowedType detect A a \<longrightarrow>
        processAttachments detect A S =
          (map (stamp detect) pre,
           Some (Error (''MIME Type '' @ detect (Content_req a) @ '' is not allowed''))))"
  unfolding processAttachments_def
  by (auto simp: processLoop_succeeds_iff processLoop_all_allowed processLoop_first_violation)

theorem processAttachments_first_violation_wins_witness:
  "processAttachments exampleDetect onlyPdf [pdfAttachment, pdfAttachment] =
     ([stamp exampleDetect pdfAttachment, stamp exampleDetect pdfAttachment], None)
   \<and> processAttachments exampleDetect onlyPdf [pdfAttachment, textAttachment, pdfAttachment] =
     ([stamp exampleDetect pdfAttachment],
      Some (Error ''MIME Type text/plain; charset=utf-8 is not allowed''))"
proof -
  have pdf_ok: "allowedType exampleDetect onlyPdf pdfAttachment"
    by (simp add: allowedType_def exampleDetect_def pdfAttachment_def onlyPdf_simps dom_def)
  have text_bad: "\<not> allowedType exampleDetect onlyPdf textAttachment"
    by (simp add: allowedType_def exampleDetect_def textAttachment_def onlyPdf_simps dom_def)
  have sniffed: "exampleDetect (Content_req textAttachment) = ''text/plain; charset=utf-8''"
    by (simp add: exampleDetect_def textAttachment_def)
  note t = processAttachments_first_violation_wins
  have ok: "snd (processAttachments exampleDetect onlyPdf [pdfAttachment, pdfAttachment]) = None"
    using t [of exampleDetect onlyPdf "[pdfAttachment, pdfAttachment]"] pdf_ok by simp
  then have "fst (processAttachments exampleDetect onlyPdf [pdfAttachment, pdfAttachment]) =
      map (stamp exampleDetect) [pdfAttachment, pdfAttachment]"
    using t [of exampleDetect onlyPdf "[pdfAttachment, pdfAttachment]"] by blast
  with ok have first: "processAttachments exampleDetect onlyPdf [pdfAttachment, pdfAttachment] =
     ([stamp exampleDetect pdfAttachment, stamp exampleDetect pdfAttachment], None)"
    by (simp add: prod_eq_iff)
  have "[pdfAttachment, textAttachment, pdfAttachment] = [pdfAttachment] @ textAttachment # [pdfAttachment]
      \<and> (\<forall>x \<in> set [pdfAttachment]. allowedType exampleDetect onlyPdf x)
      \<and> \<not> allowedType exampleDetect onlyPdf textAttachment"
    using pdf_ok text_bad by simp
  then have "processAttachments exampleDetect onlyPdf [pdfAttachment, textAttachment, pdfAttachment] =
      (map (stamp exampleDetect) [pdfAttachment],
       Some (Error (''MIME Type '' @ exampleDetect (Content_req textAttachment) @ '' is not allowed'')))"
    using t [of exampleDetect onlyPdf "[pdfAttachment, textAttachment, pdfAttachment]"] by blast
  with first sniffed show ?thesis by simp
qed

section \<open>Properties of the configuration check\<close>

lemma Validate_iff:
  "Validate c = None \<longleftrightarrow>
     User c \<noteq> [] \<and> Password c \<noteq> [] \<and> Host c \<noteq> [] \<and> 1 \<le> Port c \<and> Port c \<le> 49151"
  by (auto simp: Validate_def ValidateStruct_def Field_def Required_string_def Required_int_def
        Min_def Max_def Let_def split: option.splits if_splits)

text \<open>
  C5, as stated, fails at port 0: the configuration of the test with its port set to 0
  has non-empty User, Password and Host and a port between 0 and 49151, but
  \<open>Validate\<close> returns the error of \<^verbatim>\<open>Required\<close> for the port, and \<open>Dial\<close> returns
  that error with an unconfigured transmitter.
\<close>

theorem Validate_rejects_port_zero:
  "User (testConfig\<lparr>Port := 0\<rparr>) \<noteq> [] \<and> Password (testConfig\<lparr>Port := 0\<rparr>) \<noteq> []
   \<and> Host (testConfig\<lparr>Port := 0\<rparr>) \<noteq> []
   \<and> 0 \<le> Port (testConfig\<lparr>Port := 0\<rparr>) \<and> Port (testConfig\<lparr>Port := 0\<rparr>) \<le> 49151
   \<and> Validate (testConfig\<lparr>Port := 0\<rparr>) = Some (Errors [(''port'', ''cannot be blank'')])
   \<and> Dial (testConfig\<lparr>Port := 0\<rparr>) [] =
       ((New, Some (Errors [(''port'', ''cannot be blank'')])), [])"
  by (simp add: testConfig_def Dial_def Validate_def ValidateStruct_def Field_def Required_string_def
        Required_int_def Min_def Max_def)

text \<open>
  C5, amended.  \<open>Validate\<close> succeeds exactly when User, Password and Host are non-empty
  and 1 \<le> Port \<le> 49151.  \<open>Dial\<close> returns what \<open>Validate\<close> returns, and it validates
  before storing and before any network operation: on a validation error the
  transmitter it returns is unconfigured (nothing has been stored), otherwise it holds
  the configuration and the dialer built from it; and in both cases the trace of the
  calls that leave the process is after \<open>Dial\<close> what it was before, so no network
  operation has taken place when the validation is decided, nor afterwards.  A
  configuration with port 70000 fails validation.
\<close>

theorem Validate_and_Dial:
  "(Validate c = None \<longleftrightarrow>
      User c \<noteq> [] \<and> Password c \<noteq> [] \<and> Host c \<noteq> [] \<and> 1 \<le> Port c \<and> Port c \<le> 49151)
   \<and> snd (fst (Dial c tr)) = Validate c
   \<and> snd (Dial c tr) = tr
   \<and> (Validate c \<noteq> None \<longrightarrow> fst (fst (Dial c tr)) = \<lparr>dialer = None, cfg = None\<rparr>)
   \<and> (Validate c = None \<longrightarrow>
        fst (fst (Dial c tr)) =
          \<lparr>dialer = Some (NewDialer (Host c) (Port c) (User c) (Password c)), cfg = Some c\<rparr>)
   \<and> (Port c = 70000 \<longrightarrow> Validate c \<noteq> None)"
  using Validate_iff [of c]
  by (auto simp: Dial_def New_def storeCfg_def storeDialer_def split: option.splits)

theorem Validate_and_Dial_witness:
  "Validate testConfig = None
   \<and> Dial testConfig [] =
       ((\<lparr>dialer = Some (NewDialer ''smtp.example.de'' 38145 ''test@example.de'' ''xxx''),
          cfg = Some testConfig\<rparr>, None), [])
   \<and> Port (testConfig\<lparr>Port := 70000\<rparr>) = 70000
   \<and> Validate (testConfig\<lparr>Port := 70000\<rparr>) \<noteq> None
   \<and> Dial (testConfig\<lparr>Port := 70000\<rparr>) [] =
       ((\<lparr>dialer = None, cfg = None\<rparr>, Validate (testConfig\<lparr>Port := 70000\<rparr>)), [])"
  using Validate_and_Dial [of testConfig "[]"] Validate_and_Dial [of "testConfig\<lparr>Port := 70000\<rparr>" "[]"]
  by (simp add: testConfig_def prod_eq_iff)

section \<open>Properties of the transmitter\<close>

lemma writeFile_trace:
  "(\<exists>f e. writeFile env d a tr = ((f, Some e), tr))
   \<or> (\<exists>f r. writeFile env d a tr = ((f, r), tr @ [writeEvent env d a]))"
  by (auto simp: writeFile_def writeEvent_def extensionOf_def Let_def
        split: sum.splits list.splits option.splits)

lemma attachLoop_trace:
  "\<exists>n. snd (attachLoop env d as m tr) = tr @ map (writeEvent env d) (take n as)"
proof (induction as arbitrary: m tr)
  case Nil
  show ?case by simp
next
  case (Cons a as)
  from writeFile_trace [of env d a tr] show ?case
  proof (elim disjE exE)
    fix f e assume "writeFile env d a tr = ((f, Some e), tr)"
    then have "snd (attachLoop env d (a # as) m tr) = tr @ map (writeEvent env d) (take 0 (a # as))"
      by simp
    then show ?thesis by blast
  next
    fix f r assume w: "writeFile env d a tr = ((f, r), tr @ [writeEvent env d a])"
    show ?thesis
    proof (cases r)
      case (Some e)
      with w have "snd (attachLoop env d (a # as) m tr) = tr @ map (writeEvent env d) (take 1 (a # as))"
        by simp
      then show ?thesis by blast
    next
      case None
      from Cons.IH [of "Attach m f" "tr @ [writeEvent env d a]"] obtain n where
        "snd (attachLoop env d as (Attach m f) (tr @ [writeEvent env d a])) =
           (tr @ [writeEvent env d a]) @ map (writeEvent env d) (take n as)"
        by blast
      with w None have
        "snd (attachLoop env d (a # as) m tr) = tr @ map (writeEvent env d) (take (Suc n) (a # as))"
        by simp
      then show ?thesis by blast
    qed
  qed
qed

lemma Send_rest_trace:
  "\<exists>n dl. snd (Send_rest env ld d message m tr) = tr @ map (writeEvent env d) (take n (Attachments message)) @ dl
     \<and> (dl = [] \<or> (\<exists>dr gm. dl = [DialAndSend dr gm]))"
proof -
  obtain n where n: "snd (attachLoop env d (Attachments message) m tr) =
      tr @ map (writeEvent env d) (take n (Attachments message))"
    using attachLoop_trace by blast
  obtain r m' tr' where a: "attachLoop env d (Attachments message) m tr = ((r, m'), tr')"
    by (metis surj_pair)
  with n have tr': "tr' = tr @ map (writeEvent env d) (take n (Attachments message))" by simp
  show ?thesis
  proof (cases "r = None \<and> ld \<noteq> None")
    case True
    then obtain dr where "ld = Some dr" by blast
    with True a tr' have "snd (Send_rest env ld d message m tr) =
        tr @ map (writeEvent env d) (take n (Attachments message)) @ [DialAndSend dr m']"
      by (simp add: Send_rest_def)
    then show ?thesis by blast
  next
    case False
    with a tr' have "snd (Send_rest env ld d message m tr) =
        tr @ map (writeEvent env d) (take n (Attachments message)) @ []"
      by (auto simp: Send_rest_def split: option.splits)
    then show ?thesis by blast
  qed
qed

text \<open>
  C3.  A call of \<open>Tx.Send\<close> reaches the creation of the temporary directory when from
  and to are non-empty, the options apply without a panic, the transmitter holds a
  configuration and \<^verbatim>\<open>ioutil.TempDir\<close> returns a directory \<open>d\<close>.  On every such call,
  whatever happens next (all attachments written, a write failing after \<open>n\<close> attachments,
  the dialer missing, dial and send succeeding or failing), the only events after the
  creation are writes of attachment files joined to \<open>d\<close> and at most one dial, the last
  event is the removal of \<open>d\<close>, and what \<open>Send\<close> returns is the result of that removal:
  when the removal fails, its error is the error returned, whatever error or nil was
  about to be returned.
\<close>

theorem Send_removes_tempdir_on_every_path:
  assumes "from \<noteq> []" and "to \<noteq> []"
    and "applySendOptions options \<lparr>asCc = False\<rparr> = Returned opts"
    and "cfg tx = Some c"
    and "TempDir_result env tr (TmpDir c) ''f9a-mail'' = Inr d"
  shows "\<exists>n dl.
      snd (Send env tx from to message options tr) =
        tr @ [TempDir (TmpDir c) ''f9a-mail''] @
        map (writeEvent env d) (take n (Attachments message)) @ dl @ [RemoveAll d]
      \<and> (dl = [] \<or> (\<exists>dr gm. dl = [DialAndSend dr gm]))
      \<and> fst (Send env tx from to message options tr) =
          Returned (RemoveAll_result env (butlast (snd (Send env tx from to message options tr))) d)"
proof -
  let ?m = "compose from to message opts"
  let ?tr1 = "tr @ [TempDir (TmpDir c) ''f9a-mail'']"
  obtain n dl where r: "snd (Send_rest env (dialer tx) d message ?m ?tr1) =
       ?tr1 @ map (writeEvent env d) (take n (Attachments message)) @ dl"
     and dl: "dl = [] \<or> (\<exists>dr gm. dl = [DialAndSend dr gm])"
    using Send_rest_trace by blast
  have s: "Send env tx from to message options tr =
      (Returned (RemoveAll_result env (snd (Send_rest env (dialer tx) d message ?m ?tr1)) d),
       snd (Send_rest env (dialer tx) d message ?m ?tr1) @ [RemoveAll d])"
    using assms by (simp add: Send_def Send_loaded_def deferred_def split: prod.splits)
  have "snd (Send env tx from to message options tr) =
        tr @ [TempDir (TmpDir c) ''f9a-mail''] @
        map (writeEvent env d) (take n (Attachments message)) @ dl @ [RemoveAll d]"
    using s r by simp
  moreover have "fst (Send env tx from to message options tr) =
          Returned (RemoveAll_result env (butlast (snd (Send env tx from to message options tr))) d)"
    using s by simp
  ultimately show ?thesis using dl by blast
qed


theorem Send_removes_tempdir_on_every_path_witness:
  "''test@example.de'' \<noteq> [] \<and> [''ava@example.de''] \<noteq> []
   \<and> applySendOptions [] \<lparr>asCc = False\<rparr> = Returned \<lparr>asCc = False\<rparr>
   \<and> cfg exampleTx = Some testConfig
   \<and> TempDir_result (exampleEnv (Some (Error ''dial tcp: connection refused''))
                        (Some (Error ''unlinkat: permission denied'')))
        [] (TmpDir testConfig) ''f9a-mail'' = Inr ''/tmp/f9a-mail123''
   \<and> last (snd (Send (exampleEnv (Some (Error ''dial tcp: connection refused''))
                        (Some (Error ''unlinkat: permission denied'')))
                  exampleTx ''test@example.de'' [''ava@example.de''] exampleMessage [] []))
       = RemoveAll ''/tmp/f9a-mail123''
   \<and> fst (Send (exampleEnv (Some (Error ''dial tcp: connection refused''))
                        (Some (Error ''unlinkat: permission denied'')))
                  exampleTx ''test@example.de'' [''ava@example.de''] exampleMessage [] [])
       = Returned (Some (Error ''unlinkat: permission denied''))"
proof -
  let ?env = "exampleEnv (Some (Error ''dial tcp: connection refused''))
                (Some (Error ''unlinkat: permission denied''))"
  have h1: "''test@example.de'' \<noteq> []" and h2: "[''ava@example.de''] \<noteq> []" by simp_all
  have h3: "applySendOptions [] \<lparr>asCc = False\<rparr> = Returned \<lparr>asCc = False\<rparr>" by simp
  have h4: "cfg exampleTx = Some testConfig"
    by (simp add: exampleTx_def UpdateTxConfig_def storeCfg_def storeDialer_def)
  have h5: "TempDir_result ?env [] (TmpDir testConfig) ''f9a-mail'' = Inr ''/tmp/f9a-mail123''"
    by (simp add: exampleEnv_def testConfig_def)
  have r: "\<And>tr d. RemoveAll_result ?env tr d = Some (Error ''unlinkat: permission denied'')"
    by (simp add: exampleEnv_def)
  from Send_removes_tempdir_on_every_path [OF h1 h2 h3 h4 h5, of exampleMessage]
  obtain n dl where
    "snd (Send ?env exampleTx ''test@example.de'' [''ava@example.de''] exampleMessage [] []) =
       [] @ [TempDir (TmpDir testConfig) ''f9a-mail''] @
       map (writeEvent ?env ''/tmp/f9a-mail123'') (take n (Attachments exampleMessage)) @ dl @
       [RemoveAll ''/tmp/f9a-mail123'']"
    and "fst (Send ?env exampleTx ''test@example.de'' [''ava@example.de''] exampleMessage [] []) =
       Returned (RemoveAll_result ?env
         (butlast (snd (Send ?env exampleTx ''test@example.de'' [''ava@example.de''] exampleMessage [] [])))
         ''/tmp/f9a-mail123'')"
    by blast
  then show ?thesis using h3 h4 h5 r by simp
qed

text \<open>
  C4 fails on the code.  With the transmitter configured as in the test, one recipient and
  one attachment, a transport that fails with \<open>dial tcp: connection refused\<close> and a
  removal of the temporary directory that succeeds, \<open>Tx.Send\<close> returns nil: the deferred
  function assigns the result of the removal to \<open>err\<close> after \<open>err\<close> has received the
  transport's error.
\<close>

theorem Send_returns_nil_when_dial_fails:
  "DialAndSend_result (exampleEnv (Some (Error ''dial tcp: connection refused'')) None) tr d m
     = Some (Error ''dial tcp: connection refused'')
   \<and> Send (exampleEnv (Some (Error ''dial tcp: connection refused'')) None) exampleTx
        ''test@example.de'' [''ava@example.de''] exampleMessage [] [] =
      (Returned None,
       [TempDir ''/tmp'' ''f9a-mail'',
        WriteFile ''/tmp/f9a-mail123/invoice.pdf'' [0x25, 0x50, 0x44, 0x46, 0x2D],
        DialAndSend (NewDialer ''smtp.example.de'' 38145 ''test@example.de'' ''xxx'')
          \<lparr>header = [(''From'', [''test@example.de'']), (''To'', [''ava@example.de'']),
                     (''Subject'', [''The Frenchman says hello!''])],
           parts = [(''text/plain'', ''Quelle fantastique bugette'')],
           attached = [''/tmp/f9a-mail123/invoice.pdf'']\<rparr>,
        RemoveAll ''/tmp/f9a-mail123''])"
  by (simp add: Send_def Send_loaded_def exampleEnv_def exampleTx_def UpdateTxConfig_def
        storeCfg_def storeDialer_def New_def testConfig_def exampleMessage_def Send_rest_def
        deferred_def writeFile_def compose_def NewMessage_def SetHeader_def SetBody_def Attach_def
        Let_def)

text \<open>
  C10.  \<open>MemRecorder.Send\<close> validates nothing: for every from, to and message, the empty
  from and the empty to included, it returns nil and appends the record unchanged, and
  its result does not depend on the send options.  \<open>Tx.Send\<close> instead returns an error,
  and does nothing else, when from is empty and when to is empty.
\<close>

theorem Send_rec_no_validation:
  "Send_rec r from to message options =
     (r\<lparr>Mails := Mails r @ [\<lparr>From = from, To = to, Message = message\<rparr>]\<rparr>, None)
   \<and> Send_rec r from to message options = Send_rec r from to message []
   \<and> Send_rec r [] [] message options =
     (r\<lparr>Mails := Mails r @ [\<lparr>From = [], To = [], Message = message\<rparr>]\<rparr>, None)
   \<and> Send env tx [] to2 message2 options2 tr = (Returned (Some (Error ''from cannot be empty'')), tr)
   \<and> (from2 \<noteq> [] \<longrightarrow>
        Send env tx from2 [] message2 options2 tr =
          (Returned (Some (Error ''at least one 'to' email-address must be given'')), tr))"
  by (simp add: Send_rec_def Send_def Send_loaded_def)

theorem Send_rec_no_validation_witness:
  "''test@example.de'' \<noteq> []
   \<and> Send_rec \<lparr>Mails = [], cfg_rec = None\<rparr> [] [] exampleMessage [NilOption] =
       (\<lparr>Mails = [\<lparr>From = [], To = [], Message = exampleMessage\<rparr>], cfg_rec = None\<rparr>, None)
   \<and> Send (exampleEnv None None) exampleTx [] [''ava@example.de''] exampleMessage [] [] =
       (Returned (Some (Error ''from cannot be empty'')), [])
   \<and> Send (exampleEnv None None) exampleTx ''test@example.de'' [] exampleMessage [] [] =
       (Returned (Some (Error ''at least one 'to' email-address must be given'')), [])"
  using Send_rec_no_validation [of "\<lparr>Mails = [], cfg_rec = None\<rparr>" "[]" "[]" exampleMessage
          "[NilOption]" "exampleEnv None None" exampleTx "[''ava@example.de'']" exampleMessage "[]" "[]"
          "''test@example.de''"]
  by simp

section \<open>Properties of timef\<close>

text \<open>
  C8.  For every time on 2021-05-03 (which is a Monday), \<open>timef\<close> with
  \<open>date-short-de\<close> returns \<open>03.05.2021\<close> and with \<open>date-long-de\<close> returns
  \<open>Mo, 03. Mai 2021\<close>; and for every time whatsoever and every format other than the
  four named ones, \<open>timef\<close> returns what the formatter of the library makes of that
  format as a layout.
\<close>

theorem timef_on_2021_05_03:
  "(Year t = 2021 \<and> Month t = May \<and> Day t = 3 \<longrightarrow>
      Weekday_of t = Monday
      \<and> timef Format t ''date-short-de'' = ''03.05.2021''
      \<and> timef F t ''date-long-de'' = ''Mo, 03. Mai 2021'')
   \<and> (f \<notin> {''date-short-de'', ''date-long-de'', ''time-short-de'', ''time-long-de''} \<longrightarrow>
        timef F u f = F u f)"
proof -
  have fixed: "Weekday_of t = Monday
      \<and> timef Format t ''date-short-de'' = ''03.05.2021''
      \<and> timef F t ''date-long-de'' = ''Mo, 03. Mai 2021''"
    if date: "Year t = 2021" "Month t = May" "Day t = 3"
  proof -
    have y: "showNat 2021 = ''2021''"
      by (simp add: showNat.simps digit_def)
    have wd: "Weekday_of t = Monday"
      using date by (simp add: Weekday_of_def weekdayNumber_def monthOffset_def)
    have short: "Format t ''02.01.2006'' = ''03.05.2021''"
      using date y by (simp add: pad2_def year4_def showNat.simps digit_def)
    have long: "longDateGerman t = ''Mo, 03. Mai 2021''"
      using date y wd by (simp add: longDateGerman_def pad2_def showInt_def showNat.simps digit_def)
    show ?thesis
      using wd short long by (simp add: timef_def)
  qed
  have other: "timef F u f = F u f"
    if "f \<notin> {''date-short-de'', ''date-long-de'', ''time-short-de'', ''time-long-de''}"
    using that by (simp add: timef_def)
  from fixed other show ?thesis by blast
qed

theorem timef_on_2021_05_03_witness:
  "Year exampleTime = 2021 \<and> Month exampleTime = May \<and> Day exampleTime = 3
   \<and> ''Kitchen'' \<notin> {''date-short-de'', ''date-long-de'', ''time-short-de'', ''time-long-de''}
   \<and> timef Format exampleTime ''date-short-de'' = ''03.05.2021''
   \<and> timef Format exampleTime ''date-long-de'' = ''Mo, 03. Mai 2021''
   \<and> timef (\<lambda>t layout. layout) (exampleTime\<lparr>Year := 2022\<rparr>) ''Kitchen'' = ''Kitchen''"
proof -
  have d: "Year exampleTime = 2021 \<and> Month exampleTime = May \<and> Day exampleTime = 3"
    by (simp add: exampleTime_def)
  have n: "''Kitchen'' \<notin> {''date-short-de'', ''date-long-de'', ''time-short-de'', ''time-long-de''}"
    by simp
  show ?thesis
    using d n timef_on_2021_05_03 [of exampleTime Format "''Kitchen''" exampleTime]
      timef_on_2021_05_03 [of exampleTime "\<lambda>t layout. layout" "''Kitchen''"
        "exampleTime\<lparr>Year := 2022\<rparr>"]
    by simp
qed

section \<open>Properties of a send beside updates\<close>

lemma UpdateTxConfig_run: "UpdateTxConfig tx c = run (UpdateTxConfig_steps c) tx"
  by (simp add: UpdateTxConfig_def UpdateTxConfig_steps_def)

lemma Send_concurrent_alone: "Send_concurrent env tx [] [] from to message options tr = Send env tx from to message options tr"
  by (simp add: Send_concurrent_def Send_def)

text \<open>The transmitter that \<open>Dial\<close> returns is \<open>New\<close> after the stores that \<open>Dial\<close> made.\<close>

lemma Dial_run:
  "fst (fst (Dial c tr)) =
     (if Validate c = None then run (UpdateTxConfig_steps c) New else run [] New)"
  by (simp add: Dial_def UpdateTxConfig_steps_def Let_def split: option.splits)

lemma run_append: "run (xs @ ys) tx = run ys (run xs tx)"
  by (induction xs arbitrary: tx) simp_all

lemma cfg_run:
  "cfg (run ss tx) = cfg tx \<or> (\<exists>c. cfg (run ss tx) = Some c \<and> StoreCfg c \<in> set ss)"
proof (induction ss arbitrary: tx)
  case Nil
  show ?case by simp
next
  case (Cons s ss)
  show ?case
  proof (cases s)
    case (StoreCfg c)
    then have "cfg (step s tx) = Some c"
      by (simp add: storeCfg_def)
    with Cons.IH [of "step s tx"] StoreCfg show ?thesis by auto
  next
    case (StoreDialer c)
    then have "cfg (step s tx) = cfg tx"
      by (simp add: storeDialer_def)
    with Cons.IH [of "step s tx"] show ?thesis by auto
  qed
qed

lemma dialer_run:
  "dialer (run ss tx) = dialer tx
   \<or> (\<exists>d. dialer (run ss tx) = Some (dialerOf d) \<and> StoreDialer d \<in> set ss)"
proof (induction ss arbitrary: tx)
  case Nil
  show ?case by simp
next
  case (Cons s ss)
  show ?case
  proof (cases s)
    case (StoreCfg c)
    then have "dialer (step s tx) = dialer tx"
      by (simp add: storeCfg_def)
    with Cons.IH [of "step s tx"] show ?thesis by auto
  next
    case (StoreDialer c)
    then have "dialer (step s tx) = Some (dialerOf c)"
      by (simp add: storeDialer_def dialerOf_def)
    with Cons.IH [of "step s tx"] StoreDialer show ?thesis by auto
  qed
qed

lemma Send_rest_dials_with_loaded:
  assumes "DialAndSend dr gm \<in> set (snd (Send_rest env ld d message m tr))"
  shows "DialAndSend dr gm \<in> set tr \<or> ld = Some dr"
proof -
  obtain n where n: "snd (attachLoop env d (Attachments message) m tr) =
      tr @ map (writeEvent env d) (take n (Attachments message))"
    using attachLoop_trace by blast
  obtain r m' tr' where a: "attachLoop env d (Attachments message) m tr = ((r, m'), tr')"
    by (metis surj_pair)
  with n have tr': "tr' = tr @ map (writeEvent env d) (take n (Attachments message))" by simp
  have w: "DialAndSend dr gm \<notin> set (map (writeEvent env d) (take n (Attachments message)))"
    by (auto simp: writeEvent_def)
  show ?thesis
    using assms a tr' w
    by (auto simp: Send_rest_def split: option.splits)
qed

lemma Send_loaded_trace_cases:
  "snd (Send_loaded env lc ld from to message options tr) = tr
   \<or> (\<exists>a b. snd (Send_loaded env lc ld from to message options tr) = tr @ [TempDir a b])
   \<or> (\<exists>a b d m. snd (Send_loaded env lc ld from to message options tr) =
          snd (Send_rest env ld d message m (tr @ [TempDir a b])) @ [RemoveAll d])"
proof (cases "from = [] \<or> to = []")
  case True
  then show ?thesis by (auto simp: Send_loaded_def)
next
  case ne: False
  show ?thesis
  proof (cases "applySendOptions options \<lparr>asCc = False\<rparr>")
    case Panicked
    with ne show ?thesis by (simp add: Send_loaded_def)
  next
    case (Returned opts)
    show ?thesis
    proof (cases lc)
      case None
      with ne Returned show ?thesis by (simp add: Send_loaded_def)
    next
      case (Some c)
      show ?thesis
      proof (cases "TempDir_result env tr (TmpDir c) ''f9a-mail''")
        case (Inl err)
        with ne Returned Some have
          "snd (Send_loaded env lc ld from to message options tr) = tr @ [TempDir (TmpDir c) ''f9a-mail'']"
          by (simp add: Send_loaded_def)
        then show ?thesis by blast
      next
        case (Inr d)
        with ne Returned Some have
          "snd (Send_loaded env lc ld from to message options tr) =
             snd (Send_rest env ld d message (compose from to message opts)
                    (tr @ [TempDir (TmpDir c) ''f9a-mail''])) @ [RemoveAll d]"
          by (simp add: Send_loaded_def deferred_def split: prod.splits)
        then show ?thesis by blast
      qed
    qed
  qed
qed

lemma Send_loaded_dials_with_loaded:
  assumes "DialAndSend dr gm \<in> set (snd (Send_loaded env lc ld from to message options tr))"
  shows "DialAndSend dr gm \<in> set tr \<or> ld = Some dr"
proof -
  from Send_loaded_trace_cases [of env lc ld "from" to message options tr]
  consider "snd (Send_loaded env lc ld from to message options tr) = tr"
    | a b where "snd (Send_loaded env lc ld from to message options tr) = tr @ [TempDir a b]"
    | a b d m where "snd (Send_loaded env lc ld from to message options tr) =
          snd (Send_rest env ld d message m (tr @ [TempDir a b])) @ [RemoveAll d]"
    by blast
  then show ?thesis
  proof cases
    case 1
    with assms show ?thesis by simp
  next
    case 2
    with assms show ?thesis by simp
  next
    case 3
    with assms have "DialAndSend dr gm \<in> set (snd (Send_rest env ld d message m (tr @ [TempDir a b])))"
      by simp
    from Send_rest_dials_with_loaded [OF this] show ?thesis by simp
  qed
qed

text \<open>
  C9 fails on the code.  The transmitter is configured with the configuration of the
  test and is updated to \<open>otherConfig\<close> while a \<open>Send\<close> runs.  When the store of the
  new configuration takes effect before the first load of \<open>Send\<close> and the store of the
  new dialer after its second load, \<open>Send\<close> works with the new configuration (its
  temporary directory is under \<open>/var/tmp\<close>) and with the dialer of the old one (it
  dials \<open>smtp.example.de\<close>): the two do not belong to one generation.
\<close>

theorem Send_may_pair_new_config_with_old_dialer:
  "[StoreCfg otherConfig] @ [] @ [StoreDialer otherConfig] = UpdateTxConfig_steps otherConfig
   \<and> cfg (run [StoreCfg otherConfig] exampleTx) = Some otherConfig
   \<and> dialer (run [] (run [StoreCfg otherConfig] exampleTx)) = Some (dialerOf testConfig)
   \<and> dialerOf testConfig \<noteq> dialerOf otherConfig
   \<and> Send_concurrent (exampleEnv None None) exampleTx [StoreCfg otherConfig] []
        ''test@example.de'' [''ava@example.de''] (exampleMessage\<lparr>Attachments := []\<rparr>) [] [] =
      (Returned None,
       [TempDir ''/var/tmp'' ''f9a-mail'',
        DialAndSend (NewDialer ''smtp.example.de'' 38145 ''test@example.de'' ''xxx'')
          \<lparr>header = [(''From'', [''test@example.de'']), (''To'', [''ava@example.de'']),
                     (''Subject'', [''The Frenchman says hello!''])],
           parts = [(''text/plain'', ''Quelle fantastique bugette'')],
           attached = []\<rparr>,
        RemoveAll ''/var/tmp/f9a-mail123''])"
  by (simp add: Send_concurrent_def Send_loaded_def exampleEnv_def exampleTx_def UpdateTxConfig_def
        UpdateTxConfig_steps_def dialerOf_def otherConfig_def
        storeCfg_def storeDialer_def New_def testConfig_def exampleMessage_def Send_rest_def
        deferred_def compose_def NewMessage_def SetHeader_def SetBody_def NewDialer_def Let_def)

text \<open>
  C9, amended.  A transmitter is what \<^verbatim>\<open>New\<close>, \<^verbatim>\<open>Dial\<close> and \<^verbatim>\<open>UpdateTxConfig\<close>
  make of it: the stores of its history applied to \<open>New\<close>.  For every such
  transmitter, configured or not, and whatever stores of concurrent updates take effect
  before and between the two loads of a \<open>Send\<close>: the \<open>Send\<close> runs with the
  configuration and the dialer that its two loads find; the configuration is absent or
  one that was stored whole before the first load; the dialer is absent or built whole
  from a single configuration whose dialer was stored before the second load; and every
  dial that the \<open>Send\<close> makes uses such a dialer, so host, port, user and password of
  a dial always come from the same configuration.  The configuration loaded (which gives
  the temporary directory) and the dialer may belong to different generations, and the
  dialer may be absent when the configuration is not.
\<close>

theorem Send_concurrent_uses_one_whole_dialer:
  "Send_concurrent env (run history New) before between from to message options tr =
     Send_loaded env (cfg (run (history @ before) New))
       (dialer (run (history @ before @ between) New)) from to message options tr
   \<and> (cfg (run (history @ before) New) = None
      \<or> (\<exists>c. cfg (run (history @ before) New) = Some c \<and> StoreCfg c \<in> set (history @ before)))
   \<and> (dialer (run (history @ before @ between) New) = None
      \<or> (\<exists>d. dialer (run (history @ before @ between) New) = Some (dialerOf d)
              \<and> StoreDialer d \<in> set (history @ before @ between)))
   \<and> (\<forall>dr gm.
        DialAndSend dr gm \<in> set (snd (Send_concurrent env (run history New) before between
                                          from to message options tr)) \<longrightarrow>
        DialAndSend dr gm \<in> set tr
        \<or> (\<exists>d. dr = dialerOf d \<and> StoreDialer d \<in> set (history @ before @ between)))"
proof -
  have s: "Send_concurrent env (run history New) before between from to message options tr =
     Send_loaded env (cfg (run (history @ before) New))
       (dialer (run (history @ before @ between) New)) from to message options tr"
    by (simp add: Send_concurrent_def run_append)
  have c: "cfg (run (history @ before) New) = None
      \<or> (\<exists>c. cfg (run (history @ before) New) = Some c \<and> StoreCfg c \<in> set (history @ before))"
    using cfg_run [of "history @ before" New] by (simp add: New_def)
  have d: "dialer (run (history @ before @ between) New) = None
      \<or> (\<exists>d. dialer (run (history @ before @ between) New) = Some (dialerOf d)
              \<and> StoreDialer d \<in> set (history @ before @ between))"
    using dialer_run [of "history @ before @ between" New] by (simp add: New_def)
  have e: "DialAndSend dr gm \<in> set tr
        \<or> (\<exists>d. dr = dialerOf d \<and> StoreDialer d \<in> set (history @ before @ between))"
    if "DialAndSend dr gm \<in> set (snd (Send_concurrent env (run history New) before between
                                          from to message options tr))" for dr gm
  proof -
    from that s have "DialAndSend dr gm \<in> set tr
        \<or> dialer (run (history @ before @ between) New) = Some dr"
      using Send_loaded_dials_with_loaded
        [of dr gm env "cfg (run (history @ before) New)" "dialer (run (history @ before @ between) New)"
            "from" to message options tr]
      by simp
    with d show ?thesis by auto
  qed
  from s c d e show ?thesis by blast
qed


theorem Send_concurrent_uses_one_whole_dialer_witness:
  "DialAndSend (dialerOf testConfig)
      \<lparr>header = [(''From'', [''test@example.de'']), (''To'', [''ava@example.de'']),
                 (''Subject'', [''The Frenchman says hello!''])],
       parts = [(''text/plain'', ''Quelle fantastique bugette'')],
       attached = []\<rparr>
     \<in> set (snd (Send_concurrent (exampleEnv None None) (run (UpdateTxConfig_steps testConfig) New)
                    [StoreCfg otherConfig] [] ''test@example.de'' [''ava@example.de'']
                    (exampleMessage\<lparr>Attachments := []\<rparr>) [] []))
   \<and> (\<exists>d. dialerOf testConfig = dialerOf d
          \<and> StoreDialer d \<in> set (UpdateTxConfig_steps testConfig @ [StoreCfg otherConfig] @ []))
   \<and> Send_concurrent (exampleEnv None None) (run [] New) [StoreCfg testConfig] []
        ''test@example.de'' [''ava@example.de''] (exampleMessage\<lparr>Attachments := []\<rparr>) [] [] =
      (Returned None, [TempDir ''/tmp'' ''f9a-mail'', RemoveAll ''/tmp/f9a-mail123''])"
proof -
  let ?gm = "\<lparr>header = [(''From'', [''test@example.de'']), (''To'', [''ava@example.de'']),
                 (''Subject'', [''The Frenchman says hello!''])],
       parts = [(''text/plain'', ''Quelle fantastique bugette'')],
       attached = []\<rparr>"
  have dials: "DialAndSend (dialerOf testConfig) ?gm
     \<in> set (snd (Send_concurrent (exampleEnv None None) (run (UpdateTxConfig_steps testConfig) New)
                    [StoreCfg otherConfig] [] ''test@example.de'' [''ava@example.de'']
                    (exampleMessage\<lparr>Attachments := []\<rparr>) [] []))"
    by (simp add: Send_concurrent_def Send_loaded_def exampleEnv_def UpdateTxConfig_steps_def
          dialerOf_def otherConfig_def storeCfg_def storeDialer_def New_def testConfig_def
          exampleMessage_def Send_rest_def deferred_def compose_def NewMessage_def SetHeader_def
          SetBody_def Let_def)
  have first: "Send_concurrent (exampleEnv None None) (run [] New) [StoreCfg testConfig] []
        ''test@example.de'' [''ava@example.de''] (exampleMessage\<lparr>Attachments := []\<rparr>) [] [] =
      (Returned None, [TempDir ''/tmp'' ''f9a-mail'', RemoveAll ''/tmp/f9a-mail123''])"
    by (simp add: Send_concurrent_def Send_loaded_def exampleEnv_def
          storeCfg_def New_def testConfig_def
          exampleMessage_def Send_rest_def deferred_def compose_def NewMessage_def SetHeader_def
          SetBody_def Let_def)
  from Send_concurrent_uses_one_whole_dialer
         [of "exampleEnv None None" "UpdateTxConfig_steps testConfig" "[StoreCfg otherConfig]" "[]"
             "''test@example.de''" "[''ava@example.de'']" "exampleMessage\<lparr>Attachments := []\<rparr>"
             "[]" "[]"]
  have "DialAndSend (dialerOf testConfig) ?gm
          \<in> set (snd (Send_concurrent (exampleEnv None None) (run (UpdateTxConfig_steps testConfig) New)
                    [StoreCfg otherConfig] [] ''test@example.de'' [''ava@example.de'']
                    (exampleMessage\<lparr>Attachments := []\<rparr>) [] [])) \<longrightarrow>
        DialAndSend (dialerOf testConfig) ?gm \<in> set []
        \<or> (\<exists>d. dialerOf testConfig = dialerOf d
              \<and> StoreDialer d \<in> set (UpdateTxConfig_steps testConfig @ [StoreCfg otherConfig] @ []))"
    by blast
  with dials have "\<exists>d. dialerOf testConfig = dialerOf d
          \<and> StoreDialer d \<in> set (UpdateTxConfig_steps testConfig @ [StoreCfg otherConfig] @ [])"
    by simp
  with dials first show ?thesis by blast
qed


section \<open>Properties of the template\<close>

text \<open>
  The options other than \<^verbatim>\<open>TemplateFuncs\<close> work on the callee's copy of the struct
  only: a call of \<open>Execute\<close> with such options leaves the store as it was.
\<close>

lemma applyOptions_store:
  "\<forall>opt \<in> set opts. \<not> isTemplateFuncs opt \<Longrightarrow> fst (applyOptions h tpl opts) = h"
proof (induction opts arbitrary: tpl)
  case Nil
  show ?case by simp
next
  case (Cons opt opts)
  then have "\<not> isTemplateFuncs opt" by simp
  then obtain tpl' where "applyOption h tpl opt = (h, Returned tpl')"
    by (cases opt) auto
  with Cons show ?case by simp
qed

lemma Execute_store_unchanged:
  "\<forall>opt \<in> set opts. \<not> isTemplateFuncs opt \<Longrightarrow> fst (Execute render detect h tpl data opts) = h"
  using applyOptions_store [of opts h tpl]
  by (auto simp: Execute_def split: prod.splits result.splits)

text \<open>
  C2 fails on the code.  \<open>NewTemplate\<close> on the empty store builds a template whose
  function map, at address 0, holds \<open>timef\<close> only.  A call of \<open>Execute\<close> on that
  template with the option \<^verbatim>\<open>TemplateFuncs\<close> for a function \<open>upper\<close> returns the
  message, and afterwards the function map of the template holds \<open>upper\<close> too: the
  callee's copy of the struct shares the map with the template.
\<close>

theorem Execute_TemplateFuncs_writes_shared_map:
  "NewTemplate exampleParse 0 emptyStore ''hello'' ''world'' [] =
     (exampleStore, Returned (exampleTemplate, None))
   \<and> maps exampleStore 0 ''upper'' = None
   \<and> funcs exampleTemplate = Some 0
   \<and> snd (Execute exampleRender exampleDetect exampleStore exampleTemplate ()
             [TemplateFuncs [(''upper'', 7)]]) =
       Returned (\<lparr>Topic = ''hello'', Body = ''world'', Attachments = [], ContentType = ''text/plain''\<rparr>, None)
   \<and> maps (fst (Execute exampleRender exampleDetect exampleStore exampleTemplate ()
                   [TemplateFuncs [(''upper'', 7)]])) 0 ''upper'' = Some 7"
  by (simp add: NewTemplate_def emptyStore_def exampleStore_def exampleTemplate_def exampleParse_def
        exampleRender_def Execute_def executeTemplate_def zeroMessage_def processAttachments_def Let_def)

end
